theory Spec2Isabelle
  imports Complex_Main
begin

section \<open>JavaScript values used by storage.js\<close>

text \<open>
  A JavaScript string is a sequence of UTF-16 code units; \<open>length\<close>, \<open>substr\<close>,
  \<open>charCodeAt\<close>, \<open>String.fromCharCode\<close> and the regular expression \<open>.\<close> all work on
  code units. The glyphs of the radix codec have the codes 48 .. 10287, beyond a byte, so a
  string is modelled as the list of its code units.
\<close>

type_synonym jsstring = "nat list"

definition str :: "string \<Rightarrow> jsstring" where
  "str s = map of_char s"

text \<open>The module constants \<open>blank\<close>, \<open>comma\<close> and \<open>newline\<close> (code units 44 and 10).\<close>

definition blank :: jsstring where
  "blank = []"

definition comma :: nat where
  "comma = 44"

definition newline :: nat where
  "newline = 10"

text \<open>
  Every \<open>throw\<close> of the modelled functions, and the two exceptions the engine raises
  itself: a \<open>ReferenceError\<close> for reading an identifier that no scope declares, and a
  \<open>TypeError\<close> for reading a property of \<open>undefined\<close>.
\<close>

datatype js_error =
    NotValid  \<comment> \<open>"The input is not valid"\<close>
  | Negative  \<comment> \<open>"Can't represent negative numbers now"\<close>
  | TooLong  \<comment> \<open>"Radix result of ... is longer then padding of ..."\<close>
  | IncorrectParameters  \<comment> \<open>"Incorrect parameters"\<close>
  | UnknownType  \<comment> \<open>"Url's extension type isn't recognized: ..."\<close>
  | UnknownSize  \<comment> \<open>"Url's size isn't recognized: ..."\<close>
  | ReferenceError string
  | TypeError

text \<open>
  The argument \<open>number\<close> of \<open>Radix.fromNumber\<close>. A finite number is a rational: the
  doubles are rationals, and on the integers below \<open>2^53\<close> the operations the codec uses
  (\<open>Math.floor\<close>, \<open>%\<close>, division followed by \<open>Math.floor\<close>) are exact. \<open>Nullish\<close>
  stands for \<open>null\<close> and \<open>undefined\<close>; any other non-numeric argument is the number
  that \<open>Number(number)\<close> makes of it.
\<close>

datatype jsnumber = Nullish | NaN | PosInf | NegInf | Fin rat

section \<open>Radix\<close>

definition radix_offset :: nat where
  "radix_offset = 48"

definition radix_length :: nat where
  "radix_length = 10240"

text \<open>
  The \<open>while (true)\<close> loop of \<open>fromNumber\<close>: it prepends the glyph of
  \<open>residual % _length\<close>, divides, and leaves when the quotient is 0. The loop is
  modelled on the natural numbers; it is the loop of the code for a residual below
  \<open>2^53\<close>, where \<open>Math.floor(residual / _length)\<close> is the exact quotient. Above that
  bound the division of the code rounds, and a statement about every input carries the
  bound as a hypothesis.
\<close>

function radix_loop :: "nat \<Rightarrow> jsstring \<Rightarrow> jsstring" where
  "radix_loop residual result =
     (let rixit = residual mod radix_length;
          result' = (rixit + radix_offset) # result;
          residual' = residual div radix_length
      in if residual' = 0 then result' else radix_loop residual' result')"
  by pat_completeness auto
termination
  by (relation "measure fst") (auto simp: radix_length_def)

declare radix_loop.simps [simp del]

text \<open>
  \<open>padding = padding || 1\<close> makes a missing width and the width 0 the width 1; the
  padding is made of the character \<open>'0'\<close>, code unit 48.
\<close>

definition fromNumber :: "jsnumber \<Rightarrow> nat \<Rightarrow> js_error + jsstring" where
  "fromNumber number padding =
     (case number of
        Nullish \<Rightarrow> Inl NotValid
      | NaN \<Rightarrow> Inl NotValid
      | PosInf \<Rightarrow> Inl NotValid
      | NegInf \<Rightarrow> Inl Negative
      | Fin q \<Rightarrow>
          if q < 0 then Inl Negative
          else
            let result = radix_loop (nat \<lfloor>q\<rfloor>) blank;
                padding' = (if padding = 0 then 1 else padding)
            in if padding' < length result then Inl TooLong
               else Inr (if length result \<ge> padding' then result
                         else replicate (padding' - length result) 48 @ result))"

definition toNumber :: "jsstring \<Rightarrow> int" where
  "toNumber string =
     foldl (\<lambda>result e. (result * int radix_length) + int e - int radix_offset) 0 string"

text \<open>
  \<open>compressNumber(number, padding)\<close> and \<open>decompressNumber(text)\<close>; a call without the
  second argument is \<open>compressNumber number 0\<close>.
\<close>

definition compressNumber :: "jsnumber \<Rightarrow> nat \<Rightarrow> js_error + jsstring" where
  "compressNumber number padding = fromNumber number padding"

definition decompressNumber :: "jsstring \<Rightarrow> int" where
  "decompressNumber text = toNumber text"

text \<open>The natural width of \<open>n\<close>: the number of glyphs the loop produces before padding.\<close>

definition natural_width :: "nat \<Rightarrow> nat" where
  "natural_width n = length (radix_loop n blank)"

section \<open>Strings, arrays and objects\<close>

text \<open>
  \<open>Array.prototype.join\<close> on an array of strings, and \<open>String.prototype.split\<close> with a
  one-character separator (it returns one piece more than there are separators).
\<close>

fun js_join :: "jsstring \<Rightarrow> jsstring list \<Rightarrow> jsstring" where
  "js_join sep [] = []"
| "js_join sep [x] = x"
| "js_join sep (x # y # ys) = x @ sep @ js_join sep (y # ys)"

fun js_split :: "nat \<Rightarrow> jsstring \<Rightarrow> jsstring list" where
  "js_split sep [] = [[]]"
| "js_split sep (c # cs) =
     (if c = sep then [] # js_split sep cs
      else (case js_split sep cs of
              [] \<Rightarrow> [[c]]
            | piece # pieces \<Rightarrow> (c # piece) # pieces))"

text \<open>
  What \<open>join\<close> and \<open>+\<close> make of a number that is an integer (of magnitude below
  \<open>10^21\<close>): its decimal digits, with a minus sign (code unit 45) when it is negative.
\<close>

function decimal :: "nat \<Rightarrow> jsstring" where
  "decimal n = (if n < 10 then [48 + n] else decimal (n div 10) @ [48 + n mod 10])"
  by pat_completeness auto
termination
  by (relation "measure id") auto

declare decimal.simps [simp del]

definition number_toString :: "int \<Rightarrow> jsstring" where
  "number_toString i = (if i < 0 then 45 # decimal (nat (- i)) else decimal (nat i))"

text \<open>
  \<open>text.match(/.{2}/g)\<close>: the matches of two consecutive characters, left to right,
  without overlap. The pattern \<open>.\<close> matches every code unit but the line terminators
  \<open>\n\<close>, \<open>\r\<close>, \<open>U+2028\<close> and \<open>U+2029\<close>; a match that would contain one is retried
  one character further. No match at all gives \<open>null\<close>, which \<open>|| []\<close> turns into the
  empty array.
\<close>

definition line_terminator :: "nat \<Rightarrow> bool" where
  "line_terminator c = (c = 10 \<or> c = 13 \<or> c = 8232 \<or> c = 8233)"

fun match2 :: "jsstring \<Rightarrow> jsstring list" where
  "match2 (a # b # text) =
     (if line_terminator a then match2 (b # text)
      else if line_terminator b then match2 text
      else [a, b] # match2 text)"
| "match2 text = []"

text \<open>
  Running a fallible step over a list from left to right; the first exception ends the
  loop.
\<close>

fun collect :: "('a \<Rightarrow> js_error + 'b) \<Rightarrow> 'a list \<Rightarrow> js_error + 'b list" where
  "collect f [] = Inr []"
| "collect f (x # xs) =
     (case f x of
        Inl e \<Rightarrow> Inl e
      | Inr y \<Rightarrow> (case collect f xs of Inl e \<Rightarrow> Inl e | Inr ys \<Rightarrow> Inr (y # ys)))"

section \<open>Objects used as dictionaries\<close>

text \<open>
  The dictionaries of the file (\<open>string\<close>, \<open>_compressTypes\<close>, ...) are plain objects.
  Reading \<open>obj[key]\<close> gives the object's own property of that name; when there is none,
  the member of \<open>Object.prototype\<close> of that name, which every plain object inherits;
  and \<open>undefined\<close> when there is none either. The own properties are a map, and the
  inherited members are listed by name: each is a function, but for \<open>__proto__\<close>, whose
  getter returns the prototype object. An inherited member is no number and is truthy.
\<close>

definition object_prototype :: "jsstring list" where
  "object_prototype =
     map str [''constructor'', ''hasOwnProperty'', ''isPrototypeOf'', ''propertyIsEnumerable'',
              ''toLocaleString'', ''toString'', ''valueOf'', ''__defineGetter__'',
              ''__defineSetter__'', ''__lookupGetter__'', ''__lookupSetter__'', ''__proto__'']"

datatype 'a property = Undefined | Value 'a | Inherited jsstring

definition get_property :: "(jsstring \<rightharpoonup> 'a) \<Rightarrow> jsstring \<Rightarrow> 'a property" where
  "get_property obj key =
     (case obj key of
        Some v \<Rightarrow> Value v
      | None \<Rightarrow> if key \<in> set object_prototype then Inherited key else Undefined)"

text \<open>
  The assignment \<open>obj[key] = v\<close> of a number \<open>v\<close> creates or overwrites the own
  property, also under the name of an inherited function. The name \<open>__proto__\<close> is the
  exception: the assignment calls the setter of \<open>Object.prototype\<close>, which ignores a
  value that is no object, and the object stays as it was.
\<close>

definition set_number :: "(jsstring \<rightharpoonup> nat) \<Rightarrow> jsstring \<Rightarrow> nat \<Rightarrow> (jsstring \<rightharpoonup> nat)" where
  "set_number obj key v = (if key = str ''__proto__'' then obj else obj(key \<mapsto> v))"

section \<open>Data\<close>

text \<open>
  \<open>Data = extend(Storage, {string: {}, number: [], lookup: ...})\<close>. Every table is a deep
  copy of \<open>Data\<close> with its own two indexes: \<open>string\<close>, a plain object used as a
  dictionary, is the map of its own properties; \<open>number\<close> is an array. \<open>lookup(key)\<close>
  reads \<open>this[typeof key][key]\<close>, so it is one function for string keys, which reads the
  dictionary, and one for number keys, which reads the array.
\<close>

record ('s, 'n) data =
  string :: 's
  number :: 'n

section \<open>Names\<close>

type_synonym names = "(jsstring \<rightharpoonup> nat, jsstring list) data"

definition Names :: names where
  "Names = \<lparr>string = Map.empty, number = []\<rparr>"

definition Names_lookup_string :: "names \<Rightarrow> jsstring \<Rightarrow> nat property" where
  "Names_lookup_string this key = get_property (string this) key"

definition Names_lookup_number :: "names \<Rightarrow> nat \<Rightarrow> jsstring option" where
  "Names_lookup_number this key =
     (if key < length (number this) then Some (number this ! key) else None)"

definition Names_add :: "names \<Rightarrow> jsstring \<Rightarrow> names \<times> nat" where
  "Names_add this name =
     (let id = length (number this)
      in (this\<lparr>string := set_number (string this) name id, number := number this @ [name]\<rparr>,
          id))"

definition Names_compress :: "names \<Rightarrow> jsstring" where
  "Names_compress this = js_join [newline] (number this)"

text \<open>
  \<open>text && text.split(newline) || []\<close>: the empty text is falsy and gives the empty
  array. The loop adds the pieces in order; the result is the comparison of the two
  lengths.
\<close>

definition Names_decompress :: "names \<Rightarrow> jsstring \<Rightarrow> names \<times> bool" where
  "Names_decompress this text =
     (let array = (if text = [] then [] else js_split newline text);
          this' = foldl (\<lambda>t a. t\<lparr>string := set_number (string t) a (length (number t)),
                                     number := number t @ [a]\<rparr>)
                    (this\<lparr>string := Map.empty, number := []\<rparr>) array
      in (this', length (number this') = length array))"

section \<open>Tracks\<close>

text \<open>A track is an array of three name ids; decompression can produce any integers.\<close>

type_synonym tracks = "(jsstring \<rightharpoonup> nat, int list list) data"

definition Tracks :: tracks where
  "Tracks = \<lparr>string = Map.empty, number = []\<rparr>"

definition Tracks_lookup_string :: "tracks \<Rightarrow> jsstring \<Rightarrow> nat property" where
  "Tracks_lookup_string this key = get_property (string this) key"

definition Tracks_lookup_number :: "tracks \<Rightarrow> nat \<Rightarrow> int list option" where
  "Tracks_lookup_number this key =
     (if key < length (number this) then Some (number this ! key) else None)"

definition Tracks_add :: "tracks \<Rightarrow> int list \<Rightarrow> tracks \<times> nat" where
  "Tracks_add this track =
     (let id = length (number this)
      in (this\<lparr>string := set_number (string this) (js_join [comma] (map number_toString track)) id,
               number := number this @ [track]\<rparr>, id))"

text \<open>
  \<open>addString\<close> assigns the id to \<open>this.string[track]\<close> and then evaluates
  \<open>this.number[i] = track.split(comma)\<close>. No scope declares \<open>i\<close>: it is no local and
  no parameter of \<open>addString\<close>, no top-level name of the file, and the other script keeps
  its variables inside a function. Reading it raises a \<open>ReferenceError\<close> before the
  right-hand side is evaluated and before anything is assigned; the function returns the
  table as the first assignment left it, together with the exception.
\<close>

definition Tracks_addString :: "tracks \<Rightarrow> jsstring \<Rightarrow> tracks \<times> (js_error + nat)" where
  "Tracks_addString this track =
     (let id = length (number this);
          this' = this\<lparr>string := set_number (string this) track id\<rparr>
      in (this', Inl (ReferenceError ''i'')))"

definition Tracks_compress :: "tracks \<Rightarrow> js_error + jsstring" where
  "Tracks_compress this =
     (case collect (\<lambda>nameId. compressNumber (Fin (of_int nameId)) 2) (concat (number this)) of
        Inl e \<Rightarrow> Inl e
      | Inr array \<Rightarrow> Inr (js_join blank array))"

text \<open>
  The loop of \<open>_decompress\<close> reads three chunks in each round,
  \<open>array[trackIndex]\<close>, \<open>array[++trackIndex]\<close> and \<open>array[++trackIndex]\<close>. A chunk
  beyond the end of the array is \<open>undefined\<close>, and \<open>Radix.toNumber(undefined)\<close> raises a
  \<open>TypeError\<close> at \<open>string.split\<close>, before the round has stored anything.
\<close>

fun Tracks_decompress_loop :: "jsstring list \<Rightarrow> tracks \<Rightarrow> tracks \<times> (js_error + unit)" where
  "Tracks_decompress_loop [] this = (this, Inr ())"
| "Tracks_decompress_loop [a] this = (this, Inl TypeError)"
| "Tracks_decompress_loop [a, b] this = (this, Inl TypeError)"
| "Tracks_decompress_loop (a # b # c # array) this =
     (let track = [decompressNumber a, decompressNumber b, decompressNumber c]
      in Tracks_decompress_loop array
           (this\<lparr>string := set_number (string this)
                              (js_join [comma] (map number_toString track)) (length (number this)),
                 number := number this @ [track]\<rparr>))"

definition Tracks_decompress :: "tracks \<Rightarrow> jsstring \<Rightarrow> tracks \<times> (js_error + bool)" where
  "Tracks_decompress this text =
     (let array = (if text = [] then [] else match2 text)
      in case Tracks_decompress_loop array (this\<lparr>string := Map.empty, number := []\<rparr>) of
           (this', Inl e) \<Rightarrow> (this', Inl e)
         | (this', Inr u) \<Rightarrow> (this', Inr (length (number this') = length array)))"

section \<open>Images\<close>

text \<open>
  The record \<open>add\<close> stores: \<open>{id, size, hash, type}\<close>. The id is the result of a lookup
  in the name table and the type the result of reading \<open>_compressTypes\<close>, so each is a
  number, \<open>undefined\<close> or an inherited member. The size is a number: \<open>add\<close> is modelled
  for a numeric \<open>size\<close> argument, whose key in \<open>_compressSizes\<close> is a string of digits,
  which names no inherited member. The tables \<open>_url\<close>, \<open>_compressSizes\<close>,
  \<open>_compressTypes\<close>, \<open>_types\<close> and \<open>_sizes\<close> are \<open>url\<close>, \<open>compressSizes\<close>,
  \<open>compressTypes\<close>, \<open>types\<close> and the field \<open>sizes\<close>.
\<close>

record image =
  image_id :: "nat property"
  image_size :: nat
  image_hash :: jsstring
  image_type :: "nat property"

text \<open>
  The \<open>number\<close> index of an image table is an array with holes, and \<open>add\<close> can assign to
  \<open>this.number[id]\<close> with an id that is no number: that sets the property of the array
  named by the string of the id, which is no element of it. The array is a map from its
  property keys: an index, a name, or the string that an inherited member is converted to
  (the source text of the function; it differs from member to member and is no index).
\<close>

datatype array_key = Index nat | Property jsstring | MemberString jsstring

definition index_key :: "nat property \<Rightarrow> array_key" where
  "index_key ident =
     (case ident of
        Value n \<Rightarrow> Index n
      | Undefined \<Rightarrow> Property (str ''undefined'')
      | Inherited member \<Rightarrow> MemberString member)"

definition property_name :: "jsstring option \<Rightarrow> jsstring" where
  "property_name name = (case name of Some s \<Rightarrow> s | None \<Rightarrow> str ''undefined'')"

text \<open>
  The \<open>string\<close> index of an image table holds objects. The assignment
  \<open>this.string[name] = obj\<close> creates or overwrites the own property, but for the name
  \<open>__proto__\<close>: there the setter of \<open>Object.prototype\<close> makes \<open>obj\<close> the prototype of
  the index and adds no property. \<open>string_prototype\<close> records that object; \<open>None\<close> is
  the prototype the index starts with, \<open>Object.prototype\<close>.
\<close>

record images = "(jsstring \<rightharpoonup> image, array_key \<rightharpoonup> image) data" +
  string_prototype :: "image option"
  sizes :: "(nat \<times> jsstring) list"

definition set_image :: "images \<Rightarrow> jsstring \<Rightarrow> image \<Rightarrow> images" where
  "set_image this key obj =
     (if key = str ''__proto__'' then this\<lparr>string_prototype := Some obj\<rparr>
      else this\<lparr>string := (string this)(key \<mapsto> obj)\<rparr>)"

definition url :: jsstring where
  "url = str ''http://userserve-ak.last.fm/serve/''"

definition compressSizes :: "(nat \<times> nat) list" where
  "compressSizes = [(34, 1), (64, 2), (126, 3), (252, 4), (300, 5)]"

definition compressTypes :: "(jsstring \<times> nat) list" where
  "compressTypes = [(str ''png'', 10), (str ''jpg'', 20), (str ''jpeg'', 30), (str ''gif'', 40)]"

definition types :: "(nat \<times> jsstring) list" where
  "types = [(10, str ''png''), (20, str ''jpg''), (30, str ''jpeg''), (40, str ''gif'')]"

definition ArtistImages :: images where
  "ArtistImages =
     \<lparr>string = Map.empty, number = Map.empty, string_prototype = None,
      sizes = [(1, str ''34''), (2, str ''64''), (3, str ''126''), (4, str ''252''),
               (5, str ''300x300'')]\<rparr>"

definition AlbumImages :: images where
  "AlbumImages =
     \<lparr>string = Map.empty, number = Map.empty, string_prototype = None,
      sizes = [(1, str ''34s''), (2, str ''64s''), (3, str ''126''), (4, str ''252''),
               (5, str ''300x300'')]\<rparr>"

text \<open>
  \<open>lookup(key)\<close> for a number key reads the element \<open>this.number[key]\<close> and then its
  fields; when there is no element, reading \<open>obj.size\<close> raises a \<open>TypeError\<close>. The keys
  of \<open>_sizes\<close> and \<open>_types\<close> are the stored size and type; a label missing from a
  table, as for a type that is no number, is \<open>undefined\<close> and is concatenated as that
  word.
\<close>

definition image_url :: "images \<Rightarrow> image option \<Rightarrow> js_error + jsstring" where
  "image_url this found =
     (case found of
        None \<Rightarrow> Inl TypeError
      | Some obj \<Rightarrow>
          Inr (url @ property_name (map_of (sizes this) (image_size obj)) @ str ''/''
               @ image_hash obj @ str ''.''
               @ property_name (case image_type obj of
                                  Value t \<Rightarrow> map_of types t
                                | Undefined \<Rightarrow> None
                                | Inherited member \<Rightarrow> None)))"

definition Images_lookup_number :: "images \<Rightarrow> nat \<Rightarrow> js_error + jsstring" where
  "Images_lookup_number this key = image_url this (number this (Index key))"

text \<open>
  The first argument of \<open>add\<close>, \<open>id\<close>, is a number, a string or anything else. The
  name table is the global \<open>Names\<close>, passed as \<open>names\<close>. The function has no check on
  what the lookup returns: an unknown id gives the name \<open>undefined\<close>, an unknown name
  gives the id \<open>undefined\<close> or an inherited member, and both are used as they are. The
  type is checked before the size; \<open>!this._compressTypes[type]\<close> holds only when the
  read gives \<open>undefined\<close>, since the four numbers of the table and the inherited members
  are truthy. \<open>this.number[id]\<close> is assigned before \<open>this.string[name]\<close>.
\<close>

datatype id_arg = IdNumber nat | IdString jsstring | IdOther

definition Images_add ::
  "names \<Rightarrow> images \<Rightarrow> id_arg \<Rightarrow> nat \<Rightarrow> jsstring \<Rightarrow> jsstring
     \<Rightarrow> images \<times> (js_error + nat property)" where
  "Images_add names this ident size' hash type =
     (case (case ident of
              IdNumber n \<Rightarrow> Inr (Names_lookup_number names n, Value n)
            | IdString s \<Rightarrow> Inr (Some s, Names_lookup_string names s)
            | IdOther \<Rightarrow> Inl IncorrectParameters) of
        Inl e \<Rightarrow> (this, Inl e)
      | Inr (name, id') \<Rightarrow>
          if get_property (map_of compressTypes) type = Undefined then (this, Inl UnknownType)
          else
            (case map_of compressSizes size' of
               None \<Rightarrow> (this, Inl UnknownSize)
             | Some s \<Rightarrow>
                 let obj = \<lparr>image_id = id', image_size = s, image_hash = hash,
                            image_type = get_property (map_of compressTypes) type\<rparr>
                 in (set_image (this\<lparr>number := (number this)(index_key id' \<mapsto> obj)\<rparr>)
                       (property_name name) obj,
                     Inr id')))"

section \<open>User\<close>

text \<open>
  \<open>stats\<close> is an object of objects, year to month to track to plays; \<open>for ... in\<close>
  enumerates its keys, which are integers, in ascending order, and hands each key over as
  the string of its digits, which \<open>compressNumber\<close> reads as that number. The model keeps
  each object as the list of its entries in the order of enumeration. \<open>loved\<close> is an
  array of track ids.
\<close>

record user =
  key :: jsstring
  stats :: "(nat \<times> (nat \<times> (nat \<times> nat) list) list) list"
  loved :: "nat list"

definition User :: "jsstring \<Rightarrow> user" where
  "User username = \<lparr>key = username, stats = [], loved = []\<rparr>"

text \<open>
  The body of the innermost loop, \<open>compressNumber(track, 2) +
  compressNumber(stats[year][month][track])\<close>, the line of a month and the lines of a
  year.
\<close>

definition compress_track :: "nat \<times> nat \<Rightarrow> js_error + jsstring" where
  "compress_track entry =
     (case compressNumber (Fin (of_nat (fst entry))) 2 of
        Inl e \<Rightarrow> Inl e
      | Inr track \<Rightarrow>
          (case compressNumber (Fin (of_nat (snd entry))) 0 of
             Inl e \<Rightarrow> Inl e
           | Inr plays \<Rightarrow> Inr (track @ plays)))"

definition compress_month :: "nat \<times> (nat \<times> nat) list \<Rightarrow> js_error + jsstring" where
  "compress_month entry =
     (case compressNumber (Fin (of_nat (fst entry))) 0 of
        Inl e \<Rightarrow> Inl e
      | Inr text \<Rightarrow>
          (case collect compress_track (snd entry) of
             Inl e \<Rightarrow> Inl e
           | Inr texts \<Rightarrow> Inr (text @ concat texts)))"

definition compress_year ::
  "nat \<times> (nat \<times> (nat \<times> nat) list) list \<Rightarrow> js_error + jsstring list" where
  "compress_year entry =
     (case compressNumber (Fin (of_nat (fst entry))) 0 of
        Inl e \<Rightarrow> Inl e
      | Inr year \<Rightarrow>
          (case collect compress_month (snd entry) of
             Inl e \<Rightarrow> Inl e
           | Inr months \<Rightarrow> Inr (year # months)))"

text \<open>
  \<open>_compress\<close>: the first element of the array is \<open>this.loved.join(blank)\<close>, the track
  ids as \<open>join\<close> prints them; then the lines of the years; the array is joined with
  newlines.
\<close>

definition User_compress :: "user \<Rightarrow> js_error + jsstring" where
  "User_compress this =
     (case collect compress_year (stats this) of
        Inl e \<Rightarrow> Inl e
      | Inr years \<Rightarrow>
          Inr (js_join [newline]
                 (js_join blank (map (\<lambda>track. number_toString (int track)) (loved this))
                  # concat years)))"

text \<open>
  \<open>_decompress\<close> starts with \<open>array = test && text.split(newline) || []\<close>, the
  initialiser of the last of its local variables. No scope declares \<open>test\<close> (the
  parameter is \<open>text\<close>), so the initialiser raises a \<open>ReferenceError\<close>; the statements
  after it, which would reset \<open>this.stats\<close> and read the lines, are never reached, and
  the user record stays as it was.
\<close>

definition User_decompress :: "user \<Rightarrow> jsstring \<Rightarrow> user \<times> (js_error + unit)" where
  "User_decompress this text = (this, Inl (ReferenceError ''test''))"

section \<open>Properties of the codec\<close>

lemma toNumber_radix_loop:
  "foldl (\<lambda>result e. (result * int radix_length) + int e - int radix_offset) 0
      (radix_loop n acc) =
   foldl (\<lambda>result e. (result * int radix_length) + int e - int radix_offset) (int n) acc"
proof (induction n acc rule: radix_loop.induct)
  case (1 residual result)
  show ?case
  proof (cases "residual div radix_length = 0")
    case True
    then have "residual mod radix_length = residual"
      by (simp add: radix_length_def)
    with True show ?thesis
      by (subst radix_loop.simps) (simp add: Let_def)
  next
    case False
    have "int (residual div radix_length) * int radix_length + int (residual mod radix_length)
          = int residual"
      by (metis div_mult_mod_eq of_nat_add of_nat_mult)
    with False 1 show ?thesis
      by (subst radix_loop.simps) (simp add: Let_def)
  qed
qed

lemma toNumber_radix_loop_blank: "toNumber (radix_loop n blank) = int n"
  by (simp add: toNumber_def toNumber_radix_loop blank_def)

lemma toNumber_zero_padding: "toNumber (replicate k 48 @ s) = toNumber s"
  by (induction k) (simp_all add: toNumber_def radix_offset_def)

lemma radix_loop_last: "residual < radix_length \<Longrightarrow>
  radix_loop residual result = (residual + radix_offset) # result"
  by (subst radix_loop.simps) (simp add: Let_def)

lemma radix_loop_step: "radix_length \<le> residual \<Longrightarrow>
  radix_loop residual result =
    radix_loop (residual div radix_length) ((residual mod radix_length + radix_offset) # result)"
  by (subst radix_loop.simps) (simp add: Let_def radix_length_def div_eq_0_iff)

lemma length_radix_loop_gt: "length result < length (radix_loop residual result)"
proof (induction residual result rule: radix_loop.induct)
  case (1 residual result)
  show ?case
  proof (cases "residual < radix_length")
    case True
    then show ?thesis by (simp add: radix_loop_last)
  next
    case False
    then have ne: "residual div radix_length \<noteq> 0"
      by (simp add: radix_length_def div_eq_0_iff)
    from False have ge: "radix_length \<le> residual" by simp
    from 1 [OF refl refl refl ne] show ?thesis
      by (simp add: radix_loop_step [OF ge])
  qed
qed

lemma natural_width_pos: "0 < natural_width n"
  using length_radix_loop_gt [of blank n] by (auto simp: natural_width_def blank_def)

lemma length_radix_loop_le_iff:
  "0 < w \<Longrightarrow>
   length (radix_loop residual result) \<le> w + length result \<longleftrightarrow> residual < radix_length ^ w"
proof (induction residual result arbitrary: w rule: radix_loop.induct)
  case (1 residual result)
  show ?case
  proof (cases "residual < radix_length")
    case True
    have "radix_length ^ 1 \<le> radix_length ^ w"
      using 1(2) by (intro power_increasing) (simp_all add: radix_length_def)
    with True have "residual < radix_length ^ w" by simp
    with True 1(2) show ?thesis by (simp add: radix_loop_last)
  next
    case False
    then have ne: "residual div radix_length \<noteq> 0"
      by (simp add: radix_length_def div_eq_0_iff)
    from False have ge: "radix_length \<le> residual" by simp
    have Kpos: "0 < radix_length" by (simp add: radix_length_def)
    show ?thesis
    proof (cases "w = 1")
      case True
      have "Suc (length result) < length (radix_loop (residual div radix_length)
              ((residual mod radix_length + radix_offset) # result))"
        using length_radix_loop_gt [of "(residual mod radix_length + radix_offset) # result"
                 "residual div radix_length"] by simp
      with True False show ?thesis by (simp add: radix_loop_step [OF ge])
    next
      case F2: False
      with 1(2) obtain v where w: "w = Suc v" and v: "0 < v" by (cases w) auto
      have "length (radix_loop residual result) \<le> w + length result \<longleftrightarrow>
            residual div radix_length < radix_length ^ v"
        using 1(1) [OF refl refl refl ne v] by (simp add: radix_loop_step [OF ge] w)
      also have "\<dots> \<longleftrightarrow> residual < radix_length ^ w"
        using Kpos by (simp add: w div_less_iff_less_mult mult.commute)
      finally show ?thesis .
    qed
  qed
qed

lemma natural_width_le_iff: "0 < w \<Longrightarrow> natural_width n \<le> w \<longleftrightarrow> n < radix_length ^ w"
  using length_radix_loop_le_iff [of w n blank] by (simp add: natural_width_def blank_def)

lemma fromNumber_nat:
  "fromNumber (Fin (of_nat n)) w =
     (if (if w = 0 then 1 else w) < natural_width n then Inl TooLong
      else Inr (replicate ((if w = 0 then 1 else w) - natural_width n) 48 @ radix_loop n blank))"
  by (simp add: fromNumber_def natural_width_def Let_def)

lemma radix_loop_20485: "radix_loop 20485 blank = [50, 53]"
  by (simp add: radix_loop_step radix_loop_last radix_length_def radix_offset_def blank_def)

lemma floor_seven_halves: "\<lfloor>7 / 2 :: rat\<rfloor> = 3"
  by (rule floor_unique) simp_all

text \<open>
  C1. For every integer \<open>n\<close> with \<open>0 \<le> n < K^3\<close>, where \<open>K = 10240\<close> is the size of the
  alphabet, and every width \<open>w\<close> that is at least the natural width of \<open>n\<close>,
  \<open>fromNumber(n, w)\<close> returns the natural representation of \<open>n\<close> with \<open>w\<close> minus the
  natural width zero glyphs in front, and \<open>toNumber\<close> of that string is \<open>n\<close>: the padding
  does not change the decoded value.
\<close>

theorem fromNumber_toNumber_roundtrip:
  assumes "n < radix_length ^ 3" and "natural_width n \<le> w"
  shows "fromNumber (Fin (of_nat n)) w =
           Inr (replicate (w - natural_width n) 48 @ radix_loop n blank)
         \<and> toNumber (replicate (w - natural_width n) 48 @ radix_loop n blank) = int n
         \<and> toNumber (radix_loop n blank) = int n"
proof -
  from assms(2) natural_width_pos [of n] have "0 < w" by simp
  with assms(2) show ?thesis
    by (simp add: fromNumber_nat toNumber_zero_padding toNumber_radix_loop_blank)
qed

theorem fromNumber_toNumber_roundtrip_witness:
  "(20485::nat) < radix_length ^ 3 \<and> natural_width 20485 \<le> 3
   \<and> fromNumber (Fin 20485) 3 = Inr [48, 50, 53]
   \<and> toNumber [48, 50, 53] = 20485"
proof -
  have a: "(20485::nat) < radix_length ^ 3" by (simp add: radix_length_def)
  have b: "natural_width 20485 \<le> 3" by (simp add: natural_width_def radix_loop_20485)
  have c: "replicate (3 - natural_width 20485) 48 @ radix_loop 20485 blank = [48, 50, 53]"
    by (simp add: natural_width_def radix_loop_20485)
  show ?thesis
    using a b fromNumber_toNumber_roundtrip [OF a b] unfolding c by simp
qed

text \<open>
  C4, as the claim states it, fails at the width 0: the natural representation of 5 has one
  glyph, more than 0, and \<open>fromNumber(5, 0)\<close> returns that glyph and raises nothing.
\<close>

theorem fromNumber_zero_width_counterexample:
  "0 < natural_width 5 \<and> fromNumber (Fin 5) 0 = Inr [53]"
  by (simp add: natural_width_def fromNumber_def radix_loop_last radix_length_def
        radix_offset_def blank_def)

text \<open>
  C4, amended. For every non-negative integer \<open>n\<close> below \<open>2^53\<close>, the range on which
  the arithmetic of the codec is exact, and every width \<open>w \<ge> 1\<close>: the natural
  representation of \<open>n\<close> needs more than \<open>w\<close> glyphs exactly when \<open>n \<ge> K^w\<close>;
  \<open>fromNumber(n, w)\<close> fails with the width-overflow error when it does, and otherwise
  returns a string of length \<open>max(w, natural width)\<close>. The width 0 is treated as the
  width 1.
\<close>

theorem fromNumber_width:
  assumes "n < 2 ^ 53"
  shows "fromNumber (Fin (of_nat n)) 0 = fromNumber (Fin (of_nat n)) 1
   \<and> (0 < w \<longrightarrow> (w < natural_width n \<longleftrightarrow> radix_length ^ w \<le> n))
   \<and> (0 < w \<and> w < natural_width n \<longrightarrow> fromNumber (Fin (of_nat n)) w = Inl TooLong)
   \<and> (0 < w \<and> natural_width n \<le> w \<longrightarrow>
        (\<exists>s. fromNumber (Fin (of_nat n)) w = Inr s \<and> length s = max w (natural_width n)))"
proof -
  have a: "0 < w \<longrightarrow> (w < natural_width n \<longleftrightarrow> radix_length ^ w \<le> n)"
    using natural_width_le_iff [of w n] by auto
  have b: "fromNumber (Fin (of_nat n)) 0 = fromNumber (Fin (of_nat n)) 1
   \<and> (0 < w \<and> w < natural_width n \<longrightarrow> fromNumber (Fin (of_nat n)) w = Inl TooLong)
   \<and> (0 < w \<and> natural_width n \<le> w \<longrightarrow>
        (\<exists>s. fromNumber (Fin (of_nat n)) w = Inr s \<and> length s = max w (natural_width n)))"
    by (simp add: fromNumber_nat natural_width_def)
  from a b show ?thesis by blast
qed

theorem fromNumber_width_witness:
  "(20485::nat) < 2 ^ 53
   \<and> (0::nat) < 1 \<and> 1 < natural_width 20485 \<and> radix_length ^ 1 \<le> (20485::nat)
   \<and> fromNumber (Fin 20485) 1 = Inl TooLong
   \<and> (0::nat) < 3 \<and> natural_width 20485 \<le> 3
   \<and> (\<exists>s. fromNumber (Fin 20485) 3 = Inr s \<and> length s = 3)"
proof -
  have b: "(20485::nat) < 2 ^ 53" by simp
  have w: "natural_width 20485 = 2"
    by (simp add: natural_width_def radix_loop_20485)
  show ?thesis
    using b fromNumber_width [OF b, of 1] fromNumber_width [OF b, of 3]
    by (simp add: w radix_length_def)
qed

text \<open>
  C5, as the claim states it, fails at a fraction: \<open>fromNumber(3.5, 1)\<close> raises nothing
  and returns the glyph of 3.
\<close>

theorem fromNumber_fraction_counterexample:
  "fromNumber (Fin (7 / 2)) 1 = Inr [51]"
  by (simp add: fromNumber_def floor_seven_halves radix_loop_last radix_length_def
        radix_offset_def blank_def)

text \<open>
  C5, amended. \<open>fromNumber(n, w)\<close> fails with the invalid-input error when \<open>n\<close> is
  \<open>null\<close>, \<open>undefined\<close>, \<open>NaN\<close> or \<open>+Infinity\<close>, and with the negative-number error when
  \<open>n\<close> is negative, \<open>-Infinity\<close> included. A finite \<open>n \<ge> 0\<close> that is not an integer is
  not refused: its fractional part is dropped, and the call does what it does for
  \<open>Math.floor(n)\<close>.
\<close>

theorem fromNumber_invalid:
  "fromNumber Nullish w = Inl NotValid
   \<and> fromNumber NaN w = Inl NotValid
   \<and> fromNumber PosInf w = Inl NotValid
   \<and> fromNumber NegInf w = Inl Negative
   \<and> (q < 0 \<longrightarrow> fromNumber (Fin q) w = Inl Negative)
   \<and> (0 \<le> q \<longrightarrow> fromNumber (Fin q) w = fromNumber (Fin (of_int \<lfloor>q\<rfloor>)) w)"
  by (simp add: fromNumber_def)

theorem fromNumber_invalid_witness:
  "(- 1 :: rat) < 0 \<and> fromNumber (Fin (- 1)) 2 = Inl Negative
   \<and> (0 :: rat) \<le> 7 / 2 \<and> fromNumber (Fin (7 / 2)) 2 = fromNumber (Fin 3) 2"
  using fromNumber_invalid [where q = "- 1" and w = 2]
    fromNumber_invalid [where q = "7 / 2" and w = 2]
  by (simp add: floor_seven_halves)

section \<open>Properties of the tables\<close>

lemma decimal_digit: "n < 10 \<Longrightarrow> decimal n = [48 + n]"
  by (subst decimal.simps) simp

lemma compressNumber_small:
  "n < radix_length \<Longrightarrow> compressNumber (Fin (of_nat n)) 0 = Inr [n + radix_offset]"
  "n < radix_length \<Longrightarrow> compressNumber (Fin (of_nat n)) 2 = Inr [48, n + radix_offset]"
  by (simp_all add: compressNumber_def fromNumber_nat natural_width_def radix_loop_last blank_def)

lemma proto_in_object_prototype: "str ''__proto__'' \<in> set object_prototype"
  by (simp add: object_prototype_def)

text \<open>
  C6. After \<open>add("Radiohead")\<close> and then \<open>add\<close> of the second name, \<open>Bj\<close>, the
  letter o with diaeresis (code unit 246) and \<open>rk\<close>, on the empty name table, which
  return the ids 0 and 1, \<open>_compress\<close> yields the two names in the order of insertion
  with a newline between them; \<open>_decompress\<close> of that string, on a table in any state,
  returns true and rebuilds both indexes: \<open>lookup("Radiohead")\<close> is 0 and \<open>lookup(1)\<close>
  is the second name.
\<close>

theorem Names_add_compress_decompress:
  "snd (Names_add Names (str ''Radiohead'')) = 0
   \<and> snd (Names_add (fst (Names_add Names (str ''Radiohead''))) (str ''Bj'' @ [246] @ str ''rk'')) = 1
   \<and> Names_compress (fst (Names_add (fst (Names_add Names (str ''Radiohead'')))
        (str ''Bj'' @ [246] @ str ''rk'')))
      = str ''Radiohead'' @ [newline] @ str ''Bj'' @ [246] @ str ''rk''
   \<and> snd (Names_decompress this (str ''Radiohead'' @ [newline] @ str ''Bj'' @ [246] @ str ''rk''))
   \<and> Names_lookup_string
        (fst (Names_decompress this (str ''Radiohead'' @ [newline] @ str ''Bj'' @ [246] @ str ''rk'')))
        (str ''Radiohead'') = Value 0
   \<and> Names_lookup_number
        (fst (Names_decompress this (str ''Radiohead'' @ [newline] @ str ''Bj'' @ [246] @ str ''rk'')))
        1 = Some (str ''Bj'' @ [246] @ str ''rk'')"
  by (simp add: Names_add_def Names_def Names_compress_def Names_decompress_def
        Names_lookup_string_def Names_lookup_number_def get_property_def set_number_def
        Let_def str_def newline_def)

text \<open>
  C9. After \<open>add(0, 64, "ab12cd", "jpg")\<close> on the artist table, whatever the name table
  holds, \<open>lookup(0)\<close> is the base URL followed by the artist table's label \<open>64\<close>, a
  slash, the hash and \<open>.jpg\<close>; the same call on the album table gives the URL with the
  album table's own label \<open>64s\<close> for the same size 64.
\<close>

theorem Images_size_labels:
  "snd (Images_add names ArtistImages (IdNumber 0) 64 (str ''ab12cd'') (str ''jpg'')) = Inr (Value 0)
   \<and> Images_lookup_number
        (fst (Images_add names ArtistImages (IdNumber 0) 64 (str ''ab12cd'') (str ''jpg''))) 0
      = Inr (url @ str ''64'' @ str ''/'' @ str ''ab12cd'' @ str ''.jpg'')
   \<and> snd (Images_add names AlbumImages (IdNumber 0) 64 (str ''ab12cd'') (str ''jpg'')) = Inr (Value 0)
   \<and> Images_lookup_number
        (fst (Images_add names AlbumImages (IdNumber 0) 64 (str ''ab12cd'') (str ''jpg''))) 0
      = Inr (url @ str ''64s'' @ str ''/'' @ str ''ab12cd'' @ str ''.jpg'')
   \<and> str ''64'' \<noteq> str ''64s''"
  by (simp add: Images_add_def ArtistImages_def AlbumImages_def Images_lookup_number_def
        image_url_def set_image_def get_property_def compressTypes_def compressSizes_def
        types_def index_key_def property_name_def Let_def str_def)

text \<open>
  C10, as the claim states it, fails at the string \<open>__proto__\<close>: \<open>addString\<close> ends with
  the \<open>ReferenceError\<close>, but the assignment to \<open>this.string["__proto__"]\<close> has stored
  nothing. The table is as it was before the call, its indexes agree as before, and a
  lookup of the key finds only the inherited member.
\<close>

theorem Tracks_addString_proto_counterexample:
  "snd (Tracks_addString Tracks (str ''__proto__'')) = Inl (ReferenceError ''i'')
   \<and> fst (Tracks_addString Tracks (str ''__proto__'')) = Tracks
   \<and> Tracks_lookup_string (fst (Tracks_addString Tracks (str ''__proto__''))) (str ''__proto__'')
       = Inherited (str ''__proto__'')"
  by (simp add: Tracks_addString_def Tracks_def Tracks_lookup_string_def get_property_def
        set_number_def proto_in_object_prototype Let_def)

text \<open>
  C10, amended. For every string, \<open>addString\<close> ends with the \<open>ReferenceError\<close> for \<open>i\<close>
  and returns nothing; it is raised after the assignment to the \<open>string\<close> index and
  before any assignment to the \<open>number\<close> index, which is unchanged. For every string but
  \<open>__proto__\<close> the key is then in the \<open>string\<close> index, with the id that was the length
  of the \<open>number\<close> index, and the \<open>number\<close> index has no entry for that id: the two
  indexes disagree. For \<open>__proto__\<close> the assignment stores nothing and the table is as
  it was.
\<close>

theorem Tracks_addString_throws:
  "snd (Tracks_addString this track) = Inl (ReferenceError ''i'')
   \<and> number (fst (Tracks_addString this track)) = number this
   \<and> (track \<noteq> str ''__proto__'' \<longrightarrow>
        Tracks_lookup_string (fst (Tracks_addString this track)) track
          = Value (length (number this))
        \<and> Tracks_lookup_number (fst (Tracks_addString this track)) (length (number this)) = None)
   \<and> (track = str ''__proto__'' \<longrightarrow> fst (Tracks_addString this track) = this)"
  by (simp add: Tracks_addString_def Tracks_lookup_string_def Tracks_lookup_number_def
        get_property_def set_number_def Let_def)

theorem Tracks_addString_throws_witness:
  "str ''0,1,2'' \<noteq> str ''__proto__''
   \<and> snd (Tracks_addString Tracks (str ''0,1,2'')) = Inl (ReferenceError ''i'')
   \<and> Tracks_lookup_string (fst (Tracks_addString Tracks (str ''0,1,2''))) (str ''0,1,2'') = Value 0
   \<and> Tracks_lookup_number (fst (Tracks_addString Tracks (str ''0,1,2''))) 0 = None
   \<and> fst (Tracks_addString (fst (Tracks_add Tracks [0, 1, 2])) (str ''__proto__''))
       = fst (Tracks_add Tracks [0, 1, 2])"
proof -
  have ne: "str ''0,1,2'' \<noteq> str ''__proto__''"
    by (simp add: str_def)
  have len: "length (number Tracks) = 0"
    by (simp add: Tracks_def)
  show ?thesis
    using ne Tracks_addString_throws [of Tracks "str ''0,1,2''"]
      Tracks_addString_throws [of "fst (Tracks_add Tracks [0, 1, 2])" "str ''__proto__''"]
    by (simp add: len)
qed

text \<open>
  C7, as the claim states it, fails: with an empty name table, \<open>add("Unknown", 64,
  "ab12cd", "jpg")\<close> on the artist table raises nothing, returns \<open>undefined\<close> and
  leaves a record under \<open>"Unknown"\<close> in the \<open>string\<close> index.
\<close>

theorem Images_add_unknown_name_counterexample:
  "string Names (str ''Unknown'') = None
   \<and> snd (Images_add Names ArtistImages (IdString (str ''Unknown'')) 64 (str ''ab12cd'') (str ''jpg''))
       = Inr Undefined
   \<and> string (fst (Images_add Names ArtistImages (IdString (str ''Unknown'')) 64 (str ''ab12cd'')
         (str ''jpg''))) (str ''Unknown'')
       = Some \<lparr>image_id = Undefined, image_size = 2, image_hash = str ''ab12cd'',
               image_type = Value 20\<rparr>"
  by (simp add: Images_add_def ArtistImages_def Names_def Names_lookup_string_def
        get_property_def set_image_def object_prototype_def compressTypes_def compressSizes_def
        index_key_def property_name_def Let_def str_def)

text \<open>
  C7, amended. For a name that is not in the name table, \<open>add\<close> does not check the
  result of the lookup. It fails, leaving the table as it was, only when the type or the
  size is not recognized, where a type with the name of an inherited member, such as
  \<open>constructor\<close>, passes as recognized. Otherwise it returns the result of the lookup
  as the id: that is no number but \<open>undefined\<close>, or the inherited member when the name
  is the name of one, such as \<open>constructor\<close>. It stores the record, with that id, under
  the given name in the \<open>string\<close> index (for the name \<open>__proto__\<close> the record becomes
  the prototype of the index and no property is added); no element of the \<open>number\<close>
  index changes.
\<close>

theorem Images_add_unknown_name:
  assumes "string names name = None"
  shows "(get_property (map_of compressTypes) type = Undefined \<longrightarrow>
            Images_add names this (IdString name) size' hash type = (this, Inl UnknownType))
       \<and> (get_property (map_of compressTypes) type \<noteq> Undefined
            \<and> map_of compressSizes size' = None \<longrightarrow>
            Images_add names this (IdString name) size' hash type = (this, Inl UnknownSize))
       \<and> (get_property (map_of compressTypes) type \<noteq> Undefined
            \<and> map_of compressSizes size' = Some s \<longrightarrow>
            snd (Images_add names this (IdString name) size' hash type)
              = Inr (if name \<in> set object_prototype then Inherited name else Undefined)
          \<and> (name \<noteq> str ''__proto__'' \<longrightarrow>
               string (fst (Images_add names this (IdString name) size' hash type)) name
                 = Some \<lparr>image_id = (if name \<in> set object_prototype then Inherited name
                                      else Undefined),
                         image_size = s, image_hash = hash,
                         image_type = get_property (map_of compressTypes) type\<rparr>)
          \<and> (name = str ''__proto__'' \<longrightarrow>
               string (fst (Images_add names this (IdString name) size' hash type)) = string this
               \<and> string_prototype (fst (Images_add names this (IdString name) size' hash type))
                   = Some \<lparr>image_id = Inherited name, image_size = s, image_hash = hash,
                           image_type = get_property (map_of compressTypes) type\<rparr>)
          \<and> (\<forall>i. number (fst (Images_add names this (IdString name) size' hash type)) (Index i)
                  = number this (Index i)))"
  using assms
  by (auto simp add: Images_add_def Names_lookup_string_def get_property_def set_image_def
        index_key_def property_name_def proto_in_object_prototype Let_def)

theorem Images_add_unknown_name_witness:
  "string Names (str ''Unknown'') = None
   \<and> get_property (map_of compressTypes) (str ''bmp'') = (Undefined :: nat property)
   \<and> Images_add Names AlbumImages (IdString (str ''Unknown'')) 64 (str ''ab12cd'') (str ''bmp'')
       = (AlbumImages, Inl UnknownType)
   \<and> get_property (map_of compressTypes) (str ''gif'') = Value 40
   \<and> map_of compressSizes 65 = None
   \<and> Images_add Names AlbumImages (IdString (str ''Unknown'')) 65 (str ''ab12cd'') (str ''gif'')
       = (AlbumImages, Inl UnknownSize)
   \<and> map_of compressSizes 126 = Some 3
   \<and> str ''Unknown'' \<noteq> str ''__proto__''
   \<and> snd (Images_add Names AlbumImages (IdString (str ''Unknown'')) 126 (str ''ab12cd'') (str ''gif''))
       = Inr Undefined
   \<and> string (fst (Images_add Names AlbumImages (IdString (str ''Unknown'')) 126 (str ''ab12cd'')
         (str ''gif''))) (str ''Unknown'')
       = Some \<lparr>image_id = Undefined, image_size = 3, image_hash = str ''ab12cd'',
               image_type = Value 40\<rparr>
   \<and> string Names (str ''__proto__'') = None
   \<and> snd (Images_add Names AlbumImages (IdString (str ''__proto__'')) 126 (str ''ab12cd'')
         (str ''gif'')) = Inr (Inherited (str ''__proto__''))
   \<and> string (fst (Images_add Names AlbumImages (IdString (str ''__proto__'')) 126 (str ''ab12cd'')
         (str ''gif''))) = string AlbumImages"
proof -
  have n: "string Names (str ''Unknown'') = None" and p: "string Names (str ''__proto__'') = None"
    by (simp_all add: Names_def)
  have t1: "get_property (map_of compressTypes) (str ''bmp'') = (Undefined :: nat property)"
    by (simp add: get_property_def compressTypes_def object_prototype_def str_def)
  have t2: "get_property (map_of compressTypes) (str ''gif'') = Value 40"
    by (simp add: get_property_def compressTypes_def str_def)
  have s1: "map_of compressSizes 65 = None" and s2: "map_of compressSizes 126 = Some 3"
    by (simp_all add: compressSizes_def)
  have u: "str ''Unknown'' \<notin> set object_prototype" and ne: "str ''Unknown'' \<noteq> str ''__proto__''"
    by (simp_all add: object_prototype_def str_def)
  show ?thesis
    using Images_add_unknown_name [OF n, where type = "str ''bmp''" and this = AlbumImages
            and size' = 64 and hash = "str ''ab12cd''"]
      Images_add_unknown_name [OF n, where type = "str ''gif''" and this = AlbumImages
            and size' = 65 and hash = "str ''ab12cd''"]
      Images_add_unknown_name [OF n, where type = "str ''gif''" and this = AlbumImages
            and size' = 126 and hash = "str ''ab12cd''" and s = 3]
      Images_add_unknown_name [OF p, where type = "str ''gif''" and this = AlbumImages
            and size' = 126 and hash = "str ''ab12cd''" and s = 3]
    by (simp add: n p t1 t2 s1 s2 u ne proto_in_object_prototype)
qed

text \<open>
  What \<open>Tracks._decompress\<close> returns, for every text: a \<open>TypeError\<close> when the number of
  chunks is not a multiple of 3, and otherwise the comparison of the number of tracks with
  the number of chunks, which holds only when there is no chunk at all.
\<close>

lemma Tracks_decompress_loop_result:
  "snd (Tracks_decompress_loop array this) =
     (if length array mod 3 = 0 then Inr () else Inl TypeError)"
  by (induction array this rule: Tracks_decompress_loop.induct) (simp_all add: Let_def)

lemma Tracks_decompress_loop_length:
  "length array mod 3 = 0 \<Longrightarrow>
   length (number (fst (Tracks_decompress_loop array this))) =
     length (number this) + length array div 3"
  by (induction array this rule: Tracks_decompress_loop.induct) (simp_all add: Let_def)

lemma Tracks_decompress_result:
  "snd (Tracks_decompress this text) =
     (if length (match2 text) mod 3 = 0 then Inr (match2 text = []) else Inl TypeError)"
proof (cases "text = []")
  case True
  then show ?thesis by (simp add: Tracks_decompress_def)
next
  case False
  obtain this' r where
    l: "Tracks_decompress_loop (match2 text) (this\<lparr>string := Map.empty, number := []\<rparr>) = (this', r)"
    by (cases "Tracks_decompress_loop (match2 text) (this\<lparr>string := Map.empty, number := []\<rparr>)")
  show ?thesis
  proof (cases "length (match2 text) mod 3 = 0")
    case m: True
    from l Tracks_decompress_loop_result [of "match2 text" "this\<lparr>string := Map.empty, number := []\<rparr>"] m
    have r: "r = Inr ()" by simp
    from l Tracks_decompress_loop_length [OF m, of "this\<lparr>string := Map.empty, number := []\<rparr>"]
    have n: "length (number this') = length (match2 text) div 3" by simp
    have "(length (match2 text) div 3 = length (match2 text)) = (match2 text = [])"
      by (cases "match2 text") auto
    with False l r n m show ?thesis by (simp add: Tracks_decompress_def)
  next
    case m: False
    from l Tracks_decompress_loop_result [of "match2 text" "this\<lparr>string := Map.empty, number := []\<rparr>"] m
    have r: "r = Inl TypeError" by simp
    with False l m show ?thesis by (simp add: Tracks_decompress_def)
  qed
qed

text \<open>
  C3. The table with the one track \<open>[0, 1, 2]\<close> compresses to \<open>"000102"\<close>.
  \<open>_decompress\<close> of that text splits it into the chunks \<open>00\<close>, \<open>01\<close>, \<open>02\<close>,
  rebuilds the one track in both indexes, and returns false: it compares the number of
  tracks, 1, with the number of chunks, 3, and not with the number of groups of three
  chunks, 1.
\<close>

theorem Tracks_decompress_example:
  "Tracks_compress (fst (Tracks_add Tracks [0, 1, 2])) = Inr (str ''000102'')
   \<and> snd (Tracks_decompress this (str ''000102'')) = Inr False
   \<and> number (fst (Tracks_decompress this (str ''000102''))) = [[0, 1, 2]]
   \<and> Tracks_lookup_string (fst (Tracks_decompress this (str ''000102''))) (str ''0,1,2'') = Value 0"
  by (simp add: Tracks_compress_def Tracks_add_def Tracks_def Tracks_decompress_def
        Tracks_lookup_string_def get_property_def set_number_def decompressNumber_def
        toNumber_def number_toString_def
        decimal_digit compressNumber_small [of 0, simplified] compressNumber_small [of 1, simplified]
        compressNumber_small [of 2, simplified]
        line_terminator_def radix_length_def radix_offset_def blank_def comma_def Let_def str_def)

text \<open>
  C2. The user record with \<open>stats = {2020: {3: {5: 2}}}\<close> and \<open>loved = [7, 9]\<close>
  compresses to three lines, \<open>79\<close>, the glyph of 2020, and \<open>3052\<close>. \<open>_decompress\<close> of
  that text on a new user record raises the \<open>ReferenceError\<close> for \<open>test\<close>; the record
  keeps its empty \<open>stats\<close> and \<open>loved\<close>, so nothing is restored.
\<close>

theorem User_compress_decompress_example:
  "User_compress \<lparr>key = username, stats = [(2020, [(3, [(5, 2)])])], loved = [7, 9]\<rparr>
     = Inr (str ''79'' @ [newline, 2020 + radix_offset, newline] @ str ''3052'')
   \<and> snd (User_decompress (User username)
             (str ''79'' @ [newline, 2020 + radix_offset, newline] @ str ''3052''))
     = Inl (ReferenceError ''test'')
   \<and> stats (fst (User_decompress (User username)
             (str ''79'' @ [newline, 2020 + radix_offset, newline] @ str ''3052''))) = []
   \<and> loved (fst (User_decompress (User username)
             (str ''79'' @ [newline, 2020 + radix_offset, newline] @ str ''3052''))) = []"
  by (simp add: User_compress_def User_decompress_def User_def compress_year_def compress_month_def
        compress_track_def number_toString_def decimal_digit
        compressNumber_small [of 2020, simplified radix_length_def, simplified]
        compressNumber_small [of 3, simplified radix_length_def, simplified]
        compressNumber_small [of 5, simplified radix_length_def, simplified]
        compressNumber_small [of 2, simplified radix_length_def, simplified]
        radix_offset_def blank_def newline_def str_def)

text \<open>
  C8. With \<open>loved = [12, 345]\<close> and no stats, \<open>_compress\<close> returns the one line
  \<open>12345\<close>: the decimal digits of the ids as \<open>join\<close> prints them, five characters,
  and not the four glyphs of the two 2-glyph codes that \<open>compressNumber(12, 2)\<close> and
  \<open>compressNumber(345, 2)\<close> return.
\<close>

theorem User_compress_loved_example:
  "User_compress \<lparr>key = username, stats = [], loved = [12, 345]\<rparr> = Inr (str ''12345'')
   \<and> compressNumber (Fin 12) 2 = Inr [48, 12 + radix_offset]
   \<and> compressNumber (Fin 345) 2 = Inr [48, 345 + radix_offset]"
  by (simp add: User_compress_def number_toString_def decimal.simps [of 12] decimal.simps [of 345]
        decimal.simps [of 34] decimal_digit
        compressNumber_small [of 12, simplified radix_length_def, simplified]
        compressNumber_small [of 345, simplified radix_length_def, simplified]
        radix_offset_def blank_def str_def)

end
